theory Spec2Isabelle
  imports Main
begin

section \<open>JavaScript strings and values\<close>

text \<open>
  A JavaScript string is a sequence of UTF-16 code units. The model covers the code units
  below 256 (Basic Latin and the Latin-1 Supplement): a \<^typ>\<open>char\<close> stands for the
  code unit with the same number, and a \<^typ>\<open>string\<close> for the JavaScript string. On
  that range \<open>toLowerCase\<close> and \<open>trim\<close> are exactly the functions below.
\<close>

definition isWhiteSpace :: "char \<Rightarrow> bool" where
  \<comment> \<open>what \<open>trim\<close> strips: TAB, LF, VT, FF, CR, SPACE and NO-BREAK SPACE\<close>
  "isWhiteSpace c = (of_char c \<in> {9, 10, 11, 12, 13, 32, 160 :: nat})"

definition lowerChar :: "char \<Rightarrow> char" where
  \<comment> \<open>A..Z and the Latin-1 capitals (all of 192..222 but the multiplication sign 215)\<close>
  "lowerChar c =
     (let n = of_char c :: nat in
      if (65 \<le> n \<and> n \<le> 90) \<or> (192 \<le> n \<and> n \<le> 222 \<and> n \<noteq> 215)
      then char_of (n + 32) else c)"

definition toLowerCase :: "string \<Rightarrow> string" where
  "toLowerCase s = map lowerChar s"

definition trim :: "string \<Rightarrow> string" where
  "trim s = rev (dropWhile isWhiteSpace (rev (dropWhile isWhiteSpace s)))"

definition startsWith :: "string \<Rightarrow> string \<Rightarrow> bool" where
  "startsWith s p = (take (length p) s = p)"

definition substring :: "string \<Rightarrow> nat \<Rightarrow> string" where
  \<comment> \<open>\<open>s.substring(n)\<close>: the empty string when \<open>n\<close> is beyond the end\<close>
  "substring s n = drop n s"

fun split :: "char \<Rightarrow> string \<Rightarrow> string list" where
  \<comment> \<open>\<open>s.split(sep)\<close> for a separator of one code unit; \<open>"".split("|")\<close> is \<open>[""]\<close>\<close>
  "split sep [] = [[]]"
| "split sep (c # cs) =
     (if c = sep then [] # split sep cs
      else (case split sep cs of
              p # ps \<Rightarrow> (c # p) # ps
            | [] \<Rightarrow> [[c]]))"


text \<open>
  The values that reach a truthiness test in the program: \<open>undefined\<close>, \<open>null\<close>, a
  string, and a member inherited from \<open>Object.prototype\<close> (a function, or the prototype
  object itself for \<open>__proto__\<close>), named by its property name.
\<close>

datatype js_value = Undefined | Null | Str string | ProtoMember string

fun truthy :: "js_value \<Rightarrow> bool" where
  "truthy Undefined = False"
| "truthy Null = False"
| "truthy (Str s) = (s \<noteq> [])"
| "truthy (ProtoMember k) = True"

definition array_at :: "string list \<Rightarrow> nat \<Rightarrow> js_value" where
  \<comment> \<open>an element taken by array destructuring: \<open>undefined\<close> past the end\<close>
  "array_at xs i = (if i < length xs then Str (xs ! i) else Undefined)"

datatype js_error = TypeError

section \<open>Default knowledge\<close>

definition DEFAULT_KNOWLEDGE :: "(string \<times> string) list" where
  \<comment> \<open>the own properties of the object literal\<close>
  "DEFAULT_KNOWLEDGE =
     [(''who are you'', ''I am SormGPT, your helpful assistant.''),
      (''who is your developer'', ''@l9shx is my developer.''),
      (''hello'', ''Hello! How can I help you today?''),
      (''hi'', ''Hi there! What can I do for you?''),
      (''help'', ''You can ask me anything or teach me new things using:\<newline>\<newline>!teach question | answer'')]"

definition Object_prototype_keys :: "string list" where
  \<comment> \<open>the property names every object literal inherits\<close>
  "Object_prototype_keys =
     [''constructor'', ''__defineGetter__'', ''__defineSetter__'', ''hasOwnProperty'',
      ''__lookupGetter__'', ''__lookupSetter__'', ''isPrototypeOf'',
      ''propertyIsEnumerable'', ''toString'', ''valueOf'', ''__proto__'',
      ''toLocaleString'']"

definition DEFAULT_KNOWLEDGE_at :: "string \<Rightarrow> js_value" where
  \<comment> \<open>the property access \<open>DEFAULT_KNOWLEDGE[key]\<close>: own properties, then the prototype\<close>
  "DEFAULT_KNOWLEDGE_at k =
     (case map_of DEFAULT_KNOWLEDGE k of
        Some v \<Rightarrow> Str v
      | None \<Rightarrow> if k \<in> set Object_prototype_keys then ProtoMember k else Undefined)"

section \<open>Database\<close>

text \<open>
  The tables \<open>memory\<close> and \<open>logs\<close> are lists of rows in insertion order (the table
  \<open>users\<close> is never touched). \<open>usage_count\<close> and the timestamps are natural numbers;
  the 64-bit range of an SQLite INTEGER is out of reach of a counter that grows by one.
\<close>

record memory_row =
  question :: string
  answer :: string
  created_at :: nat
  usage_count :: nat

record log_row =
  log_id :: nat
  user_id :: int
  username :: string
  message :: string
  logged_at :: nat

text \<open>The statements the program sends, with their parameters.\<close>

datatype sql =
    SelectAnswer string
  | UpdateUsage string
  | InsertOrReplace string string
  | InsertLog int string string
  | CountMemory
  | CountLogs
  | TopQuestions

text \<open>
  What the program tells the user, one constructor for each message template:
  \<open>InvalidFormat\<close> "Invalid format. Use: !teach question | answer",
  \<open>BuiltinConflict\<close> "This is built-in knowledge and cannot be changed.",
  \<open>Learned q a\<close> "Learned: 'q' -> 'a'",
  \<open>SaveFailed\<close> "Failed to save the knowledge. Please try again.",
  \<open>ProcessingError\<close> "An error occurred while processing your request.",
  \<open>Answer v\<close> the answer itself,
  \<open>DontKnow\<close> "I don't know the answer to that. ...",
  \<open>HelpText\<close> the help text,
  \<open>StatsText m l top\<close> the statistics with both counts and the top questions,
  \<open>StatsError\<close> "Could not retrieve statistics.".
\<close>

datatype reply =
    InvalidFormat
  | BuiltinConflict
  | Learned string string
  | SaveFailed
  | ProcessingError
  | Answer js_value
  | DontKnow
  | HelpText
  | StatsText nat nat "(string \<times> nat) list"
  | StatsError

text \<open>
  The state: both tables, the statements sent to the database so far (oldest first)
  and the messages sent to chats so far (oldest first). Statements complete in the order
  in which they are sent.
\<close>

record state =
  memory :: "memory_row list"
  logs :: "log_row list"
  issued :: "sql list"
  sent :: "(int \<times> reply) list"

text \<open>
  The environment of one call: which statements the database fails, and the value of
  \<open>CURRENT_TIMESTAMP\<close>.
\<close>

record env =
  fails :: "sql \<Rightarrow> bool"
  now :: nat

definition issue :: "sql \<Rightarrow> state \<Rightarrow> state" where
  "issue st s = s\<lparr>issued := issued s @ [st]\<rparr>"

definition select_answer :: "env \<Rightarrow> string \<Rightarrow> state \<Rightarrow> (unit + string option) \<times> state" where
  \<comment> \<open>\<open>SELECT answer FROM memory WHERE question = ?\<close>, first row\<close>
  "select_answer e q s =
     (if fails e (SelectAnswer q) then (Inl (), issue (SelectAnswer q) s)
      else (Inr (map_option answer (find (\<lambda>r. question r = q) (memory s))),
            issue (SelectAnswer q) s))"

definition update_usage :: "env \<Rightarrow> string \<Rightarrow> state \<Rightarrow> bool \<times> state" where
  \<comment> \<open>\<open>UPDATE memory SET usage_count = usage_count + 1 WHERE question = ?\<close>\<close>
  "update_usage e q s =
     (if fails e (UpdateUsage q) then (False, issue (UpdateUsage q) s)
      else (True,
            issue (UpdateUsage q)
              (s\<lparr>memory :=
                   map (\<lambda>r. if question r = q then r\<lparr>usage_count := usage_count r + 1\<rparr> else r)
                     (memory s)\<rparr>)))"

definition insert_or_replace :: "env \<Rightarrow> string \<Rightarrow> string \<Rightarrow> state \<Rightarrow> bool \<times> state" where
  \<comment> \<open>\<open>INSERT OR REPLACE INTO memory (question, answer) VALUES (?, ?)\<close>: a row with
      the same primary key is deleted, then the new row is inserted, with the column
      defaults \<open>CURRENT_TIMESTAMP\<close> and \<open>0\<close> for the columns the statement does not name\<close>
  "insert_or_replace e q a s =
     (if fails e (InsertOrReplace q a) then (False, issue (InsertOrReplace q a) s)
      else (True,
            issue (InsertOrReplace q a)
              (s\<lparr>memory :=
                   filter (\<lambda>r. question r \<noteq> q) (memory s) @
                   [\<lparr>question = q, answer = a, created_at = now e, usage_count = 0\<rparr>]\<rparr>)))"

definition next_log_id :: "log_row list \<Rightarrow> nat" where
  "next_log_id rows = Suc (foldr max (map log_id rows) 0)"

definition insert_log :: "env \<Rightarrow> int \<Rightarrow> string \<Rightarrow> string \<Rightarrow> state \<Rightarrow> bool \<times> state" where
  \<comment> \<open>\<open>INSERT INTO logs (user_id, username, message) VALUES (?, ?, ?)\<close>\<close>
  "insert_log e u n t s =
     (if fails e (InsertLog u n t) then (False, issue (InsertLog u n t) s)
      else (True,
            issue (InsertLog u n t)
              (s\<lparr>logs :=
                   logs s @
                   [\<lparr>log_id = next_log_id (logs s), user_id = u, username = n, message = t,
                     logged_at = now e\<rparr>]\<rparr>)))"




section \<open>The bot\<close>

text \<open>
  A Telegram message: \<open>msg_text\<close> is \<open>msg.text\<close>, \<open>chat_id\<close> is \<open>msg.chat.id\<close> and
  \<open>sender\<close> is \<open>msg.from\<close>, with \<open>uid\<close> its \<open>id\<close> and \<open>uname\<close> its \<open>username\<close>.
  The text, the sender and the user name may be absent.
\<close>

record tg_user =
  uid :: int
  uname :: "string option"

record msg =
  msg_text :: "string option"
  chat_id :: int
  sender :: "tg_user option"

definition sendMessage :: "int \<Rightarrow> reply \<Rightarrow> state \<Rightarrow> state" where
  "sendMessage chat r s = s\<lparr>sent := sent s @ [(chat, r)]\<rparr>"

datatype callback_result = Err | Ok js_value

definition getAnswer :: "env \<Rightarrow> string \<Rightarrow> state \<Rightarrow> callback_result \<times> state" where
  \<comment> \<open>\<open>callback(err)\<close> is \<open>Err\<close>, \<open>callback(null, v)\<close> is \<open>Ok v\<close>\<close>
  "getAnswer e question0 s =
     (let q = trim (toLowerCase question0) in
      if truthy (DEFAULT_KNOWLEDGE_at q) then (Ok (DEFAULT_KNOWLEDGE_at q), s)
      else (case select_answer e q s of
              (Inl _, s1) \<Rightarrow> (Err, s1)
            | (Inr (Some a), s1) \<Rightarrow> (Ok (Str a), snd (update_usage e q s1))
            | (Inr None, s1) \<Rightarrow> (Ok Null, s1)))"

definition saveLog :: "env \<Rightarrow> int \<Rightarrow> string \<Rightarrow> string \<Rightarrow> state \<Rightarrow> state" where
  "saveLog e userId name t s = snd (insert_log e userId name t s)"

definition teachQuestion :: "env \<Rightarrow> string \<Rightarrow> string \<Rightarrow> state \<Rightarrow> bool \<times> state" where
  "teachQuestion e question0 answer0 s =
     insert_or_replace e (trim (toLowerCase question0)) (trim answer0) s"



definition or_Unknown :: "string option \<Rightarrow> string" where
  \<comment> \<open>\<open>user.username || "Unknown"\<close>\<close>
  "or_Unknown n = (case n of None \<Rightarrow> ''Unknown'' | Some x \<Rightarrow> if x = [] then ''Unknown'' else x)"

definition teachMode :: "env \<Rightarrow> int \<Rightarrow> string \<Rightarrow> state \<Rightarrow> state" where
  \<comment> \<open>the body of the branch \<open>if (message.startsWith("!teach"))\<close>; a truthy value that is
      not a string would raise at \<open>toLowerCase\<close> and be caught\<close>
  "teachMode e chat message0 s =
     (let d = trim (substring message0 6);
          parts = map trim (split (CHR ''|'') d);
          qv = array_at parts 0;
          av = array_at parts 1
      in if \<not> truthy qv \<or> \<not> truthy av then sendMessage chat InvalidFormat s
         else (case (qv, av) of
                 (Str question0, Str answer0) \<Rightarrow>
                   if truthy (DEFAULT_KNOWLEDGE_at (toLowerCase question0))
                   then sendMessage chat BuiltinConflict s
                   else (case teachQuestion e question0 answer0 s of
                           (True, s1) \<Rightarrow> sendMessage chat (Learned question0 answer0) s1
                         | (False, s1) \<Rightarrow> sendMessage chat SaveFailed s1)
               | _ \<Rightarrow> sendMessage chat ProcessingError s))"

definition handleMessage :: "env \<Rightarrow> msg \<Rightarrow> state \<Rightarrow> js_error + state" where
  \<comment> \<open>\<open>Inl TypeError\<close>: reading \<open>user.id\<close> when \<open>msg.from\<close> is absent\<close>
  "handleMessage e m s =
     (case msg_text m of
        None \<Rightarrow> Inr s
      | Some t \<Rightarrow>
          if t = [] then Inr s
          else (let message0 = trim t in
                case sender m of
                  None \<Rightarrow> Inl TypeError
                | Some user \<Rightarrow>
                    (let s1 = saveLog e (uid user) (or_Unknown (uname user)) message0 s in
                     if startsWith message0 ''!teach'' then Inr (teachMode e (chat_id m) message0 s1)
                     else (case getAnswer e message0 s1 of
                             (Err, s2) \<Rightarrow> Inr (sendMessage (chat_id m) ProcessingError s2)
                           | (Ok v, s2) \<Rightarrow>
                               if truthy v then Inr (sendMessage (chat_id m) (Answer v) s2)
                               else Inr (sendMessage (chat_id m) DontKnow s2)))))"



section \<open>Notions used in the properties\<close>

text \<open>
  The teach input is what follows \<open>!teach\<close> in the message. Its parts: the text before
  the first \<open>|\<close>, the text after the first \<open>|\<close>, and from them the two pieces the
  program keeps, the question and the answer.
\<close>

definition before_first_bar :: "string \<Rightarrow> string" where
  "before_first_bar d = takeWhile (\<lambda>c. c \<noteq> CHR ''|'') d"

definition after_first_bar :: "string \<Rightarrow> string" where
  "after_first_bar d = tl (dropWhile (\<lambda>c. c \<noteq> CHR ''|'') d)"

definition teach_question :: "string \<Rightarrow> string" where
  "teach_question raw = trim (before_first_bar raw)"

definition teach_answer :: "string \<Rightarrow> string" where
  "teach_answer raw = trim (before_first_bar (after_first_bar raw))"

definition lookup_row :: "string \<Rightarrow> state \<Rightarrow> memory_row option" where
  "lookup_row q s = find (\<lambda>r. question r = q) (memory s)"

definition no_faults :: "nat \<Rightarrow> env" where
  \<comment> \<open>no statement fails; the clock reads \<open>t\<close>\<close>
  "no_faults t = \<lparr>fails = (\<lambda>_. False), now = t\<rparr>"

definition update_faults :: "nat \<Rightarrow> env" where
  \<comment> \<open>every \<open>UPDATE\<close> of the usage count fails, nothing else does\<close>
  "update_faults t =
     \<lparr>fails = (\<lambda>st. case st of UpdateUsage _ \<Rightarrow> True | _ \<Rightarrow> False), now = t\<rparr>"



primrec resolves :: "env \<Rightarrow> string \<Rightarrow> nat \<Rightarrow> state \<Rightarrow> state" where
  \<comment> \<open>\<open>n\<close> successive calls of \<open>getAnswer\<close> on the same text\<close>
  "resolves e t 0 s = s"
| "resolves e t (Suc n) s = resolves e t n (snd (getAnswer e t s))"

section \<open>Strings\<close>

lemma lowerChar_idem: "lowerChar (lowerChar c) = lowerChar c"
  unfolding lowerChar_def Let_def by auto

lemma isWhiteSpace_lowerChar: "isWhiteSpace (lowerChar c) = isWhiteSpace c"
  unfolding lowerChar_def Let_def isWhiteSpace_def by auto

lemma toLowerCase_idem: "toLowerCase (toLowerCase s) = toLowerCase s"
  by (simp add: toLowerCase_def lowerChar_idem)

lemma dropWhile_white_lower:
  "dropWhile isWhiteSpace (map lowerChar s) = map lowerChar (dropWhile isWhiteSpace s)"
  by (induction s) (simp_all add: isWhiteSpace_lowerChar)

lemma trim_toLowerCase: "trim (toLowerCase s) = toLowerCase (trim s)"
  by (simp add: trim_def toLowerCase_def dropWhile_white_lower rev_map)

lemma dropWhile_rev_commute:
  "dropWhile P (rev (dropWhile P (rev xs))) = rev (dropWhile P (rev (dropWhile P xs)))"
  by (induction xs) (auto simp: dropWhile_append dest: set_dropWhileD)

lemma trim_idem: "trim (trim s) = trim s"
  by (simp add: trim_def dropWhile_rev_commute)

lemma trim_eq_Nil: "trim s = [] \<longleftrightarrow> (\<forall>c\<in>set s. isWhiteSpace c)"
  proof
  assume "trim s = []"
  then have "\<forall>c\<in>set (dropWhile isWhiteSpace s). isWhiteSpace c"
    by (simp add: trim_def)
  then have "dropWhile isWhiteSpace s = []"
    by (metis hd_dropWhile hd_in_set)
  then show "\<forall>c\<in>set s. isWhiteSpace c" by simp
next
  assume "\<forall>c\<in>set s. isWhiteSpace c"
  then have d: "dropWhile isWhiteSpace s = []" by simp
  show "trim s = []" unfolding trim_def d by simp
qed

lemma split_not_Nil: "split sep s \<noteq> []"
  by (induction s) (auto split: list.splits)

lemma split_no_sep: "sep \<notin> set s \<Longrightarrow> split sep s = [s]"
  by (induction s) (auto split: list.splits)

lemma split_sep:
  "sep \<in> set s \<Longrightarrow>
   split sep s = takeWhile (\<lambda>c. c \<noteq> sep) s # split sep (tl (dropWhile (\<lambda>c. c \<noteq> sep) s))"
  by (induction s) (auto split: list.splits simp: split_not_Nil)

lemma hd_split: "hd (split sep s) = takeWhile (\<lambda>c. c \<noteq> sep) s"
  by (induction s) (auto split: list.splits simp: split_not_Nil)

lemma bar_not_white: "\<not> isWhiteSpace (CHR ''|'')"
  by (simp add: isWhiteSpace_def)

lemma dropWhile_keep: "\<not> P x \<Longrightarrow> dropWhile P (xs @ x # ys) = dropWhile P xs @ x # ys"
  by (induction xs) auto

lemma split_at_bar:
  "CHR ''|'' \<in> set s \<Longrightarrow> s = before_first_bar s @ CHR ''|'' # after_first_bar s"
proof -
  assume b: "CHR ''|'' \<in> set s"
  let ?P = "\<lambda>c. c \<noteq> CHR ''|''"
  from b have ne: "dropWhile ?P s \<noteq> []" by (auto simp: dropWhile_eq_Nil_conv)
  then have "hd (dropWhile ?P s) = CHR ''|''" using hd_dropWhile [of ?P s] by simp
  with ne have "dropWhile ?P s = CHR ''|'' # tl (dropWhile ?P s)"
    by (cases "dropWhile ?P s") auto
  then have "takeWhile ?P s @ CHR ''|'' # tl (dropWhile ?P s) = s"
    using takeWhile_dropWhile_id [of ?P s] by simp
  then show ?thesis by (simp add: before_first_bar_def after_first_bar_def)
qed

lemma before_first_bar_no_bar: "CHR ''|'' \<notin> set (before_first_bar s)"
  by (auto simp: before_first_bar_def dest: set_takeWhileD)

lemma before_first_bar_append:
  "CHR ''|'' \<notin> set a \<Longrightarrow> before_first_bar (a @ CHR ''|'' # b) = a"
  by (induction a) (auto simp: before_first_bar_def)

lemma after_first_bar_append:
  "CHR ''|'' \<notin> set a \<Longrightarrow> after_first_bar (a @ CHR ''|'' # b) = b"
  by (induction a) (auto simp: after_first_bar_def)

lemma before_first_bar_id: "CHR ''|'' \<notin> set s \<Longrightarrow> before_first_bar s = s"
  by (induction s) (auto simp: before_first_bar_def)

lemma after_first_bar_Nil: "CHR ''|'' \<notin> set s \<Longrightarrow> after_first_bar s = []"
  by (induction s) (auto simp: after_first_bar_def)

lemma trim_at_bar:
  assumes "CHR ''|'' \<in> set s"
  shows "trim s = dropWhile isWhiteSpace (before_first_bar s) @ CHR ''|'' #
                  rev (dropWhile isWhiteSpace (rev (after_first_bar s)))"
proof -
  let ?a = "before_first_bar s" and ?b = "after_first_bar s"
  have "trim s = trim (?a @ CHR ''|'' # ?b)" using split_at_bar [OF assms] by simp
  also have "\<dots> = rev (dropWhile isWhiteSpace (rev ?b @ CHR ''|'' # rev (dropWhile isWhiteSpace ?a)))"
    by (simp add: trim_def dropWhile_keep bar_not_white)
  also have "\<dots> = dropWhile isWhiteSpace ?a @ CHR ''|'' # rev (dropWhile isWhiteSpace (rev ?b))"
    by (simp add: dropWhile_keep bar_not_white)
  finally show ?thesis .
qed

lemma set_trim_subset: "set (trim s) \<subseteq> set s"
  by (auto simp: trim_def dest!: set_dropWhileD)

lemma bar_in_trim: "CHR ''|'' \<in> set (trim s) \<longleftrightarrow> CHR ''|'' \<in> set s"
proof
  assume "CHR ''|'' \<in> set (trim s)" then show "CHR ''|'' \<in> set s"
    using set_trim_subset by blast
next
  assume "CHR ''|'' \<in> set s" then show "CHR ''|'' \<in> set (trim s)"
    by (simp add: trim_at_bar)
qed

lemma trim_dropWhile: "trim (dropWhile isWhiteSpace s) = trim s"
  by (simp add: trim_def)

lemma trim_trimEnd: "trim (rev (dropWhile isWhiteSpace (rev s))) = trim s"
  by (simp add: trim_def dropWhile_rev_commute)

lemma trim_before_first_bar_trim: "trim (before_first_bar (trim s)) = trim (before_first_bar s)"
proof (cases "CHR ''|'' \<in> set s")
  case True
  have "CHR ''|'' \<notin> set (dropWhile isWhiteSpace (before_first_bar s))"
    using before_first_bar_no_bar by (auto dest: set_dropWhileD)
  then show ?thesis
    by (simp add: trim_at_bar [OF True] before_first_bar_append trim_dropWhile)
next
  case False
  then show ?thesis by (simp add: before_first_bar_id bar_in_trim trim_idem)
qed

lemma after_first_bar_trim:
  "after_first_bar (trim s) = rev (dropWhile isWhiteSpace (rev (after_first_bar s)))"
proof (cases "CHR ''|'' \<in> set s")
  case True
  have "CHR ''|'' \<notin> set (dropWhile isWhiteSpace (before_first_bar s))"
    using before_first_bar_no_bar by (auto dest: set_dropWhileD)
  then show ?thesis
    by (simp add: trim_at_bar [OF True] after_first_bar_append)
next
  case False
  then show ?thesis by (simp add: after_first_bar_Nil bar_in_trim)
qed

lemma trim_after_first_bar_trim: "trim (after_first_bar (trim s)) = trim (after_first_bar s)"
  by (simp add: after_first_bar_trim trim_trimEnd)

lemma before_first_bar_trimEnd:
  "trim (before_first_bar (rev (dropWhile isWhiteSpace (rev s)))) = trim (before_first_bar s)"
proof (cases "CHR ''|'' \<in> set s")
  case True
  let ?a = "before_first_bar s" and ?b = "after_first_bar s"
  have "rev (dropWhile isWhiteSpace (rev s)) =
        rev (dropWhile isWhiteSpace (rev (?a @ CHR ''|'' # ?b)))"
    using split_at_bar [OF True] by simp
  also have "\<dots> = ?a @ CHR ''|'' # rev (dropWhile isWhiteSpace (rev ?b))"
    by (simp add: dropWhile_keep bar_not_white)
  finally show ?thesis
    by (simp add: before_first_bar_append before_first_bar_no_bar)
next
  case False
  then have "CHR ''|'' \<notin> set (rev (dropWhile isWhiteSpace (rev s)))"
    by (auto dest: set_dropWhileD)
  with False show ?thesis by (simp add: before_first_bar_id trim_trimEnd)
qed

lemma teach_question_trim: "teach_question (trim raw) = teach_question raw"
  by (simp add: teach_question_def trim_before_first_bar_trim)

lemma teach_answer_trim: "teach_answer (trim raw) = teach_answer raw"
  by (simp add: teach_answer_def after_first_bar_trim before_first_bar_trimEnd)

section \<open>The teach branch, case by case\<close>

lemma array_at_parts_0:
  "array_at (map trim (split (CHR ''|'') d)) 0 = Str (trim (before_first_bar d))"
  using split_not_Nil [of "CHR ''|''" d] hd_split [of "CHR ''|''" d]
  by (cases "split (CHR ''|'') d") (simp_all add: array_at_def before_first_bar_def)

lemma array_at_parts_1:
  "array_at (map trim (split (CHR ''|'') d)) (Suc 0) =
     (if CHR ''|'' \<in> set d then Str (trim (before_first_bar (after_first_bar d))) else Undefined)"
proof (cases "CHR ''|'' \<in> set d")
  case True
  have "split (CHR ''|'') (after_first_bar d) \<noteq> []" by (rule split_not_Nil)
  then obtain p ps where ps: "split (CHR ''|'') (after_first_bar d) = p # ps"
    by (cases "split (CHR ''|'') (after_first_bar d)") auto
  with hd_split [of "CHR ''|''" "after_first_bar d"]
  have p: "p = before_first_bar (after_first_bar d)"
    by (simp add: before_first_bar_def)
  from split_sep [OF True] ps p True show ?thesis
    by (simp add: array_at_def after_first_bar_def)
next
  case False
  then show ?thesis by (simp add: split_no_sep array_at_def)
qed

lemma teachMode_eq:
  "teachMode e chat (''!teach'' @ raw) s =
     (if CHR ''|'' \<notin> set raw \<or> teach_question raw = [] \<or> teach_answer raw = []
      then sendMessage chat InvalidFormat s
      else if truthy (DEFAULT_KNOWLEDGE_at (toLowerCase (teach_question raw)))
      then sendMessage chat BuiltinConflict s
      else if fails e (InsertOrReplace (toLowerCase (teach_question raw)) (teach_answer raw))
      then sendMessage chat SaveFailed
             (issue (InsertOrReplace (toLowerCase (teach_question raw)) (teach_answer raw)) s)
      else sendMessage chat (Learned (teach_question raw) (teach_answer raw))
             (issue (InsertOrReplace (toLowerCase (teach_question raw)) (teach_answer raw))
                (s\<lparr>memory :=
                     filter (\<lambda>r. question r \<noteq> toLowerCase (teach_question raw)) (memory s) @
                     [\<lparr>question = toLowerCase (teach_question raw), answer = teach_answer raw,
                       created_at = now e, usage_count = 0\<rparr>]\<rparr>)))"
proof -
  have q: "trim (before_first_bar (trim raw)) = teach_question raw"
    using teach_question_trim [of raw] by (simp add: teach_question_def)
  have a: "trim (before_first_bar (after_first_bar (trim raw))) = teach_answer raw"
    using teach_answer_trim [of raw] by (simp add: teach_answer_def)
  have t: "trim (teach_question raw) = teach_question raw" "trim (teach_answer raw) = teach_answer raw"
    by (simp_all add: teach_question_def teach_answer_def trim_idem)
  show ?thesis
    by (simp add: teachMode_def substring_def Let_def array_at_parts_0 array_at_parts_1
        q a t bar_in_trim teachQuestion_def insert_or_replace_def trim_toLowerCase)
qed

text \<open>
  A message whose trimmed text is \<open>!teach\<close> followed by \<open>raw\<close> reaches the teach branch
  with that text, after the log has been written; \<open>raw\<close> is the teach input of the
  properties below.
\<close>

lemma handleMessage_teach:
  assumes "msg_text m = Some t" and "t \<noteq> []" and "sender m = Some u"
      and "trim t = ''!teach'' @ raw"
  shows "handleMessage e m s =
           Inr (teachMode e (chat_id m) (''!teach'' @ raw)
                  (saveLog e (uid u) (or_Unknown (uname u)) (''!teach'' @ raw) s))"
  using assms by (simp add: handleMessage_def startsWith_def Let_def)

section \<open>Built-in answers\<close>

lemma builtin_answer_truthy: "map_of DEFAULT_KNOWLEDGE k = Some a \<Longrightarrow> a \<noteq> []"
  by (auto simp: DEFAULT_KNOWLEDGE_def split: if_splits)

lemma DEFAULT_KNOWLEDGE_at_builtin:
  "map_of DEFAULT_KNOWLEDGE k = Some a \<Longrightarrow> DEFAULT_KNOWLEDGE_at k = Str a"
  by (simp add: DEFAULT_KNOWLEDGE_at_def)

text \<open>
  Claim C3. When the text, lower-cased and trimmed, is a key of the built-in table,
  \<open>getAnswer\<close> calls back with the built-in answer and the state after the call is the
  state before it: no statement has been sent to the database (no read, no write), and
  every row of \<open>memory\<close>, the one under the same key included, has the usage count it
  had.
\<close>

theorem builtin_resolve_untouched:
  assumes "map_of DEFAULT_KNOWLEDGE (trim (toLowerCase t)) = Some a"
  shows "getAnswer e t s = (Ok (Str a), s)
       \<and> issued (snd (getAnswer e t s)) = issued s
       \<and> memory (snd (getAnswer e t s)) = memory s"
  using assms builtin_answer_truthy [OF assms]
  by (simp add: getAnswer_def DEFAULT_KNOWLEDGE_at_builtin)

theorem builtin_resolve_untouched_witness:
  "map_of DEFAULT_KNOWLEDGE (trim (toLowerCase ''  HeLLo '')) =
     Some ''Hello! How can I help you today?'' \<and>
   getAnswer (no_faults 7) ''  HeLLo ''
     \<lparr>memory = [\<lparr>question = ''hello'', answer = ''x'', created_at = 1, usage_count = 2\<rparr>],
      logs = [], issued = [], sent = []\<rparr> =
   (Ok (Str ''Hello! How can I help you today?''),
     \<lparr>memory = [\<lparr>question = ''hello'', answer = ''x'', created_at = 1, usage_count = 2\<rparr>],
      logs = [], issued = [], sent = []\<rparr>)"
proof -
  have h: "map_of DEFAULT_KNOWLEDGE (trim (toLowerCase ''  HeLLo '')) =
             Some ''Hello! How can I help you today?''"
    by code_simp
  show ?thesis using builtin_resolve_untouched [OF h] h by simp
qed

section \<open>Teaching\<close>

lemma teach_answer_Nil: "trim (after_first_bar raw) = [] \<Longrightarrow> teach_answer raw = []"
  by (auto simp: teach_answer_def trim_eq_Nil before_first_bar_def dest: set_takeWhileD)

lemma sendMessage_fields [simp]:
  "memory (sendMessage chat r s) = memory s"
  "logs (sendMessage chat r s) = logs s"
  "issued (sendMessage chat r s) = issued s"
  "sent (sendMessage chat r s) = sent s @ [(chat, r)]"
  by (simp_all add: sendMessage_def)

lemma issue_fields [simp]:
  "memory (issue st s) = memory s"
  "logs (issue st s) = logs s"
  "issued (issue st s) = issued s @ [st]"
  "sent (issue st s) = sent s"
  by (simp_all add: issue_def)

text \<open>
  Claim C5. A teach input with no \<open>|\<close>, or whose text before the first \<open>|\<close> is empty
  once trimmed, or whose text after the first \<open>|\<close> is empty once trimmed, is answered
  with the invalid-format message; the table \<open>memory\<close> is as it was and no statement
  has been sent to the database by the teach branch.
\<close>

theorem teach_invalid_format:
  assumes "CHR ''|'' \<notin> set raw \<or> trim (before_first_bar raw) = []
           \<or> trim (after_first_bar raw) = []"
  shows "teachMode e chat (''!teach'' @ raw) s = sendMessage chat InvalidFormat s
       \<and> memory (teachMode e chat (''!teach'' @ raw) s) = memory s
       \<and> issued (teachMode e chat (''!teach'' @ raw) s) = issued s"
  unfolding teachMode_eq using assms teach_answer_Nil [of raw]
  by (auto simp: teach_question_def)

theorem teach_invalid_format_witness:
  "(CHR ''|'' \<notin> set '' onlyquestion'' \<and>
    teachMode (no_faults 7) 1 (''!teach'' @ '' onlyquestion'')
      \<lparr>memory = [], logs = [], issued = [], sent = []\<rparr> =
      \<lparr>memory = [], logs = [], issued = [], sent = [(1, InvalidFormat)]\<rparr>) \<and>
   (trim (before_first_bar ''  | b'') = [] \<and>
    teachMode (no_faults 7) 1 (''!teach'' @ ''  | b'')
      \<lparr>memory = [], logs = [], issued = [], sent = []\<rparr> =
      \<lparr>memory = [], logs = [], issued = [], sent = [(1, InvalidFormat)]\<rparr>) \<and>
   (trim (after_first_bar '' a |  '') = [] \<and>
    teachMode (no_faults 7) 1 (''!teach'' @ '' a |  '')
      \<lparr>memory = [], logs = [], issued = [], sent = []\<rparr> =
      \<lparr>memory = [], logs = [], issued = [], sent = [(1, InvalidFormat)]\<rparr>)"
proof -
  have h1: "CHR ''|'' \<notin> set '' onlyquestion''" by simp
  have h2: "trim (before_first_bar ''  | b'') = []" by code_simp
  have h3: "trim (after_first_bar '' a |  '') = []" by code_simp
  have s: "sendMessage 1 InvalidFormat \<lparr>memory = [], logs = [], issued = [], sent = []\<rparr> =
             \<lparr>memory = [], logs = [], issued = [], sent = [(1, InvalidFormat)]\<rparr>"
    by (simp add: sendMessage_def)
  from h1 have a1: "CHR ''|'' \<notin> set '' onlyquestion'' \<or> trim (before_first_bar '' onlyquestion'') = []
           \<or> trim (after_first_bar '' onlyquestion'') = []" by blast
  from h2 have a2: "CHR ''|'' \<notin> set ''  | b'' \<or> trim (before_first_bar ''  | b'') = []
           \<or> trim (after_first_bar ''  | b'') = []" by blast
  from h3 have a3: "CHR ''|'' \<notin> set '' a |  '' \<or> trim (before_first_bar '' a |  '') = []
           \<or> trim (after_first_bar '' a |  '') = []" by blast
  show ?thesis
    using teach_invalid_format [OF a1, of "no_faults 7" 1 "\<lparr>memory = [], logs = [], issued = [], sent = []\<rparr>"]
          teach_invalid_format [OF a2, of "no_faults 7" 1 "\<lparr>memory = [], logs = [], issued = [], sent = []\<rparr>"]
          teach_invalid_format [OF a3, of "no_faults 7" 1 "\<lparr>memory = [], logs = [], issued = [], sent = []\<rparr>"]
          h1 h2 h3 s
    by (simp only: simp_thms)
qed

lemma find_after_replace:
  "question row = k \<Longrightarrow>
   find (\<lambda>r. question r = k') (filter (\<lambda>r. question r \<noteq> k) m @ [row]) =
     (if k' = k then Some row else find (\<lambda>r. question r = k') m)"
  by (induction m) auto

lemma teach_Learned_iff:
  "sent (teachMode e chat (''!teach'' @ raw) s) = sent s @ [(chat, Learned qq aa)] \<longleftrightarrow>
     CHR ''|'' \<in> set raw \<and> teach_question raw \<noteq> [] \<and> teach_answer raw \<noteq> [] \<and>
     \<not> truthy (DEFAULT_KNOWLEDGE_at (toLowerCase (teach_question raw))) \<and>
     \<not> fails e (InsertOrReplace (toLowerCase (teach_question raw)) (teach_answer raw)) \<and>
     qq = teach_question raw \<and> aa = teach_answer raw"
  unfolding teachMode_eq by auto

lemma teach_Learned_memory:
  assumes "sent (teachMode e chat (''!teach'' @ raw) s) = sent s @ [(chat, Learned qq aa)]"
  shows "memory (teachMode e chat (''!teach'' @ raw) s) =
           filter (\<lambda>r. question r \<noteq> toLowerCase qq) (memory s) @
           [\<lparr>question = toLowerCase qq, answer = aa, created_at = now e, usage_count = 0\<rparr>]"
  using assms [unfolded teach_Learned_iff] unfolding teachMode_eq by simp

lemma teach_Learned_lookup:
  assumes "sent (teachMode e chat (''!teach'' @ raw) s) = sent s @ [(chat, Learned qq aa)]"
  shows "lookup_row k (teachMode e chat (''!teach'' @ raw) s) =
           (if k = toLowerCase qq
            then Some \<lparr>question = toLowerCase qq, answer = aa, created_at = now e, usage_count = 0\<rparr>
            else lookup_row k s)"
  unfolding lookup_row_def teach_Learned_memory [OF assms]
  by (simp add: find_after_replace)

text \<open>
  Claim C1, as the code has it. The statement \<open>INSERT OR REPLACE\<close> deletes the row with
  the same question and inserts a new one, so the columns it does not name take their
  defaults. For a question present in \<open>memory\<close>, a teach of the same normalized
  question that is answered with \<open>Learned\<close> leaves under that question a row with the new
  answer, the current timestamp and usage count 0, whatever the count was; every other
  question keeps its row.
\<close>

theorem reteach_replaces_row:
  assumes "lookup_row (toLowerCase qq) s = Some r"
      and "sent (teachMode e chat (''!teach'' @ raw) s) = sent s @ [(chat, Learned qq aa)]"
  shows "lookup_row (toLowerCase qq) (teachMode e chat (''!teach'' @ raw) s) =
           Some \<lparr>question = toLowerCase qq, answer = aa, created_at = now e, usage_count = 0\<rparr>
       \<and> (\<forall>k. k \<noteq> toLowerCase qq \<longrightarrow>
              lookup_row k (teachMode e chat (''!teach'' @ raw) s) = lookup_row k s)"
  by (simp del: append.simps add: teach_Learned_lookup [OF assms(2)])

theorem reteach_replaces_row_witness:
  "lookup_row (toLowerCase ''foo'')
     \<lparr>memory = [\<lparr>question = ''foo'', answer = ''Bar'', created_at = 1, usage_count = 3\<rparr>,
                \<lparr>question = ''qux'', answer = ''Y'', created_at = 2, usage_count = 5\<rparr>],
      logs = [], issued = [], sent = []\<rparr> =
     Some \<lparr>question = ''foo'', answer = ''Bar'', created_at = 1, usage_count = 3\<rparr> \<and>
   sent (teachMode (no_faults 7) 1 (''!teach'' @ '' foo | Baz'')
     \<lparr>memory = [\<lparr>question = ''foo'', answer = ''Bar'', created_at = 1, usage_count = 3\<rparr>,
                \<lparr>question = ''qux'', answer = ''Y'', created_at = 2, usage_count = 5\<rparr>],
      logs = [], issued = [], sent = []\<rparr>) =
     sent \<lparr>memory = [\<lparr>question = ''foo'', answer = ''Bar'', created_at = 1, usage_count = 3\<rparr>,
                \<lparr>question = ''qux'', answer = ''Y'', created_at = 2, usage_count = 5\<rparr>],
      logs = [], issued = [], sent = []\<rparr> @ [(1, Learned ''foo'' ''Baz'')] \<and>
   lookup_row (toLowerCase ''foo'') (teachMode (no_faults 7) 1 (''!teach'' @ '' foo | Baz'')
     \<lparr>memory = [\<lparr>question = ''foo'', answer = ''Bar'', created_at = 1, usage_count = 3\<rparr>,
                \<lparr>question = ''qux'', answer = ''Y'', created_at = 2, usage_count = 5\<rparr>],
      logs = [], issued = [], sent = []\<rparr>) =
     Some \<lparr>question = ''foo'', answer = ''Baz'', created_at = 7, usage_count = 0\<rparr> \<and>
   ''qux'' \<noteq> toLowerCase ''foo'' \<and>
   lookup_row ''qux'' (teachMode (no_faults 7) 1 (''!teach'' @ '' foo | Baz'')
     \<lparr>memory = [\<lparr>question = ''foo'', answer = ''Bar'', created_at = 1, usage_count = 3\<rparr>,
                \<lparr>question = ''qux'', answer = ''Y'', created_at = 2, usage_count = 5\<rparr>],
      logs = [], issued = [], sent = []\<rparr>) =
     Some \<lparr>question = ''qux'', answer = ''Y'', created_at = 2, usage_count = 5\<rparr>"
proof -
  let ?s = "\<lparr>memory = [\<lparr>question = ''foo'', answer = ''Bar'', created_at = 1, usage_count = 3\<rparr>,
                \<lparr>question = ''qux'', answer = ''Y'', created_at = 2, usage_count = 5\<rparr>],
      logs = [], issued = [], sent = []\<rparr>"
  have h1: "lookup_row (toLowerCase ''foo'') ?s =
     Some \<lparr>question = ''foo'', answer = ''Bar'', created_at = 1, usage_count = 3\<rparr>"
    by code_simp
  have h2: "sent (teachMode (no_faults 7) 1 (''!teach'' @ '' foo | Baz'') ?s) =
     sent ?s @ [(1, Learned ''foo'' ''Baz'')]"
    by code_simp
  have h3: "''qux'' \<noteq> toLowerCase ''foo''" by code_simp
  have q: "lookup_row ''qux'' ?s =
     Some \<lparr>question = ''qux'', answer = ''Y'', created_at = 2, usage_count = 5\<rparr>"
    by code_simp
  have l: "toLowerCase ''foo'' = ''foo''" by code_simp
  have n: "now (no_faults 7) = 7" by (simp add: no_faults_def)
  from reteach_replaces_row [OF h1 h2] h1 h2 h3 q show ?thesis
    unfolding l n by metis
qed

text \<open>
  Claim C1 as stated fails: the question \<open>foo\<close> is present with usage count 3, and after
  \<open>!teach foo | Baz\<close> its row has usage count 0.
\<close>

theorem reteach_keeps_count_counterexample:
  "teachMode (no_faults 7) 1 ''!teach foo | Baz''
     \<lparr>memory = [\<lparr>question = ''foo'', answer = ''Bar'', created_at = 1, usage_count = 3\<rparr>],
      logs = [], issued = [], sent = []\<rparr> =
   \<lparr>memory = [\<lparr>question = ''foo'', answer = ''Baz'', created_at = 7, usage_count = 0\<rparr>],
    logs = [], issued = [InsertOrReplace ''foo'' ''Baz''], sent = [(1, Learned ''foo'' ''Baz'')]\<rparr>"
  by code_simp

text \<open>
  Claim C2, as the code has it. The input is split at every \<open>|\<close> and the first two
  pieces are kept. When a teach is answered with \<open>Learned\<close>, the input holds a \<open>|\<close>, the
  question is the trimmed text before the first \<open>|\<close>, the answer is the trimmed text
  between the first \<open>|\<close> and the second (or the end of the input), and that answer is
  what the row stored under the lower-cased question holds. When the text after the first
  \<open>|\<close> holds no further \<open>|\<close>, the answer is all of it, trimmed.
\<close>

theorem teach_splits_twice:
  assumes "sent (teachMode e chat (''!teach'' @ raw) s) = sent s @ [(chat, Learned qq aa)]"
  shows "CHR ''|'' \<in> set raw
       \<and> qq = trim (before_first_bar raw)
       \<and> aa = trim (before_first_bar (after_first_bar raw))
       \<and> lookup_row (toLowerCase qq) (teachMode e chat (''!teach'' @ raw) s) =
           Some \<lparr>question = toLowerCase qq, answer = aa, created_at = now e, usage_count = 0\<rparr>
       \<and> (CHR ''|'' \<notin> set (after_first_bar raw) \<longrightarrow> aa = trim (after_first_bar raw))"
  using assms [unfolded teach_Learned_iff]
  by (simp del: append.simps
        add: teach_Learned_lookup [OF assms] teach_question_def teach_answer_def before_first_bar_id)

theorem teach_splits_twice_witness:
  "sent (teachMode (no_faults 7) 1 (''!teach'' @ '' a | b | c'')
          \<lparr>memory = [], logs = [], issued = [], sent = []\<rparr>) =
     sent \<lparr>memory = [], logs = [], issued = [], sent = []\<rparr> @ [(1, Learned ''a'' ''b'')] \<and>
   CHR ''|'' \<in> set '' a | b | c'' \<and>
   ''a'' = trim (before_first_bar '' a | b | c'') \<and>
   ''b'' = trim (before_first_bar (after_first_bar '' a | b | c'')) \<and>
   lookup_row (toLowerCase ''a'')
     (teachMode (no_faults 7) 1 (''!teach'' @ '' a | b | c'')
        \<lparr>memory = [], logs = [], issued = [], sent = []\<rparr>) =
     Some \<lparr>question = ''a'', answer = ''b'', created_at = 7, usage_count = 0\<rparr> \<and>
   sent (teachMode (no_faults 7) 1 (''!teach'' @ '' Foo | Bar baz '')
          \<lparr>memory = [], logs = [], issued = [], sent = []\<rparr>) =
     sent \<lparr>memory = [], logs = [], issued = [], sent = []\<rparr> @ [(1, Learned ''Foo'' ''Bar baz'')] \<and>
   CHR ''|'' \<notin> set (after_first_bar '' Foo | Bar baz '') \<and>
   ''Bar baz'' = trim (after_first_bar '' Foo | Bar baz '')"
proof -
  let ?s = "\<lparr>memory = [], logs = [], issued = [], sent = []\<rparr>"
  have h: "sent (teachMode (no_faults 7) 1 (''!teach'' @ '' a | b | c'') ?s) =
             sent ?s @ [(1, Learned ''a'' ''b'')]"
    by code_simp
  have h': "sent (teachMode (no_faults 7) 1 (''!teach'' @ '' Foo | Bar baz '') ?s) =
             sent ?s @ [(1, Learned ''Foo'' ''Bar baz'')]"
    by code_simp
  have nb: "CHR ''|'' \<notin> set (after_first_bar '' Foo | Bar baz '')" by code_simp
  have l: "toLowerCase ''a'' = ''a''" by code_simp
  have n: "now (no_faults 7) = 7" by (simp add: no_faults_def)
  from teach_splits_twice [OF h] teach_splits_twice [OF h'] h h' nb show ?thesis
    unfolding l n by blast
qed

text \<open>
  Claim C2 as stated fails: for \<open>!teach a | b | c\<close> the text after the first \<open>|\<close> is
  \<open>b | c\<close> once trimmed, and the stored answer is \<open>b\<close>.
\<close>

theorem teach_rejoins_answer_counterexample:
  "teachMode (no_faults 7) 1 ''!teach a | b | c''
     \<lparr>memory = [], logs = [], issued = [], sent = []\<rparr> =
   \<lparr>memory = [\<lparr>question = ''a'', answer = ''b'', created_at = 7, usage_count = 0\<rparr>],
    logs = [], issued = [InsertOrReplace ''a'' ''b''], sent = [(1, Learned ''a'' ''b'')]\<rparr>
   \<and> trim (after_first_bar '' a | b | c'') = ''b | c''"
  by code_simp

text \<open>
  Claim C4. After a teach answered with \<open>Learned qq aa\<close>, \<open>getAnswer\<close> on any text with
  the same normalization as \<open>qq\<close> calls back with \<open>aa\<close>, provided the \<open>SELECT\<close> does not
  fail. The witness is the teach input \<open>Foo | Bar\<close> resolved as \<open>foo\<close>, \<open>FOO\<close> and
  \<open>Foo\<close> between blanks.
\<close>

theorem teach_then_resolve:
  assumes "sent (teachMode e chat (''!teach'' @ raw) s) = sent s @ [(chat, Learned qq aa)]"
      and "trim (toLowerCase t) = trim (toLowerCase qq)"
      and "\<not> fails e' (SelectAnswer (trim (toLowerCase t)))"
  shows "fst (getAnswer e' t (teachMode e chat (''!teach'' @ raw) s)) = Ok (Str aa)"
proof -
  from assms(1) have q: "qq = teach_question raw"
    and nb: "\<not> truthy (DEFAULT_KNOWLEDGE_at (toLowerCase (teach_question raw)))"
    unfolding teach_Learned_iff by simp_all
  have k: "trim (toLowerCase t) = toLowerCase qq"
    using assms(2) by (simp add: q trim_toLowerCase teach_question_def trim_idem)
  have "find (\<lambda>r. question r = toLowerCase qq) (memory (teachMode e chat (''!teach'' @ raw) s)) =
          Some \<lparr>question = toLowerCase qq, answer = aa, created_at = now e, usage_count = 0\<rparr>"
    using teach_Learned_lookup [OF assms(1), of "toLowerCase qq"] by (simp add: lookup_row_def)
  then show ?thesis
    using nb assms(3) unfolding getAnswer_def k
    by (simp del: append.simps add: q select_answer_def Let_def)
qed

theorem teach_then_resolve_witness:
  "sent (teachMode (no_faults 7) 1 (''!teach'' @ '' Foo | Bar'')
          \<lparr>memory = [], logs = [], issued = [], sent = []\<rparr>) =
     sent \<lparr>memory = [], logs = [], issued = [], sent = []\<rparr> @ [(1, Learned ''Foo'' ''Bar'')] \<and>
   trim (toLowerCase ''foo'') = trim (toLowerCase ''Foo'') \<and>
   trim (toLowerCase ''FOO'') = trim (toLowerCase ''Foo'') \<and>
   trim (toLowerCase ''  Foo  '') = trim (toLowerCase ''Foo'') \<and>
   fst (getAnswer (no_faults 8) ''foo''
          (teachMode (no_faults 7) 1 (''!teach'' @ '' Foo | Bar'')
             \<lparr>memory = [], logs = [], issued = [], sent = []\<rparr>)) = Ok (Str ''Bar'') \<and>
   fst (getAnswer (no_faults 8) ''FOO''
          (teachMode (no_faults 7) 1 (''!teach'' @ '' Foo | Bar'')
             \<lparr>memory = [], logs = [], issued = [], sent = []\<rparr>)) = Ok (Str ''Bar'') \<and>
   fst (getAnswer (no_faults 8) ''  Foo  ''
          (teachMode (no_faults 7) 1 (''!teach'' @ '' Foo | Bar'')
             \<lparr>memory = [], logs = [], issued = [], sent = []\<rparr>)) = Ok (Str ''Bar'')"
proof -
  let ?s = "\<lparr>memory = [], logs = [], issued = [], sent = []\<rparr>"
  have h: "sent (teachMode (no_faults 7) 1 (''!teach'' @ '' Foo | Bar'') ?s) =
             sent ?s @ [(1, Learned ''Foo'' ''Bar'')]"
    by code_simp
  have n1: "trim (toLowerCase ''foo'') = trim (toLowerCase ''Foo'')" by code_simp
  have n2: "trim (toLowerCase ''FOO'') = trim (toLowerCase ''Foo'')" by code_simp
  have n3: "trim (toLowerCase ''  Foo  '') = trim (toLowerCase ''Foo'')" by code_simp
  have f: "\<not> fails (no_faults 8) x" for x by (simp add: no_faults_def)
  from teach_then_resolve [OF h n1 f] teach_then_resolve [OF h n2 f]
       teach_then_resolve [OF h n3 f] h n1 n2 n3
  show ?thesis by blast
qed




text \<open>
  Claim C7, as the code has it. A teach input that passes both checks and whose
  \<open>INSERT OR REPLACE\<close> does not fail is answered with \<open>Learned\<close> of the trimmed question
  in the case it was typed in and of the trimmed answer; the row is stored under the
  lower-cased question, with that answer.
\<close>

theorem teach_reports_typed_question:
  assumes "CHR ''|'' \<in> set raw" and "teach_question raw \<noteq> []" and "teach_answer raw \<noteq> []"
      and "\<not> truthy (DEFAULT_KNOWLEDGE_at (toLowerCase (teach_question raw)))"
      and "\<not> fails e (InsertOrReplace (toLowerCase (teach_question raw)) (teach_answer raw))"
  shows "sent (teachMode e chat (''!teach'' @ raw) s) =
           sent s @ [(chat, Learned (trim (before_first_bar raw)) (teach_answer raw))]
       \<and> lookup_row (toLowerCase (trim (before_first_bar raw))) (teachMode e chat (''!teach'' @ raw) s) =
           Some \<lparr>question = toLowerCase (trim (before_first_bar raw)), answer = teach_answer raw,
                 created_at = now e, usage_count = 0\<rparr>"
proof -
  have ok: "sent (teachMode e chat (''!teach'' @ raw) s) =
              sent s @ [(chat, Learned (teach_question raw) (teach_answer raw))]"
    unfolding teach_Learned_iff using assms by simp
  show ?thesis
    using ok teach_Learned_lookup [OF ok, of "toLowerCase (teach_question raw)"]
    by (simp del: append.simps add: teach_question_def)
qed

theorem teach_reports_typed_question_witness:
  "CHR ''|'' \<in> set '' Foo | Bar'' \<and>
   teach_question '' Foo | Bar'' \<noteq> [] \<and>
   teach_answer '' Foo | Bar'' \<noteq> [] \<and>
   \<not> truthy (DEFAULT_KNOWLEDGE_at (toLowerCase (teach_question '' Foo | Bar''))) \<and>
   \<not> fails (no_faults 7)
       (InsertOrReplace (toLowerCase (teach_question '' Foo | Bar'')) (teach_answer '' Foo | Bar'')) \<and>
   sent (teachMode (no_faults 7) 1 (''!teach'' @ '' Foo | Bar'')
           \<lparr>memory = [], logs = [], issued = [], sent = []\<rparr>) =
     [(1, Learned ''Foo'' ''Bar'')] \<and>
   lookup_row ''foo'' (teachMode (no_faults 7) 1 (''!teach'' @ '' Foo | Bar'')
           \<lparr>memory = [], logs = [], issued = [], sent = []\<rparr>) =
     Some \<lparr>question = ''foo'', answer = ''Bar'', created_at = 7, usage_count = 0\<rparr>"
proof -
  let ?s = "\<lparr>memory = [], logs = [], issued = [], sent = []\<rparr>"
  have h1: "CHR ''|'' \<in> set '' Foo | Bar''" by simp
  have h2: "teach_question '' Foo | Bar'' \<noteq> []" by code_simp
  have h3: "teach_answer '' Foo | Bar'' \<noteq> []" by code_simp
  have h4: "\<not> truthy (DEFAULT_KNOWLEDGE_at (toLowerCase (teach_question '' Foo | Bar'')))"
    by code_simp
  have h5: "\<not> fails (no_faults 7)
       (InsertOrReplace (toLowerCase (teach_question '' Foo | Bar'')) (teach_answer '' Foo | Bar''))"
    by (simp add: no_faults_def)
  have q: "trim (before_first_bar '' Foo | Bar'') = ''Foo''" by code_simp
  have a: "teach_answer '' Foo | Bar'' = ''Bar''" by code_simp
  have l: "toLowerCase ''Foo'' = ''foo''" by code_simp
  have n: "now (no_faults 7) = 7" by (simp add: no_faults_def)
  have e: "sent ?s = []" by simp
  from teach_reports_typed_question [OF h1 h2 h3 h4 h5, of 1 ?s] h1 h2 h3 h4 h5
  show ?thesis unfolding q a l n e append_Nil by blast
qed

text \<open>
  Claim C7 as stated fails: \<open>!teach Foo | Bar\<close> is answered with \<open>Learned Foo Bar\<close>
  while the key stored is \<open>foo\<close>.
\<close>

theorem teach_reports_normalized_counterexample:
  "teachMode (no_faults 7) 1 ''!teach Foo | Bar''
     \<lparr>memory = [], logs = [], issued = [], sent = []\<rparr> =
   \<lparr>memory = [\<lparr>question = ''foo'', answer = ''Bar'', created_at = 7, usage_count = 0\<rparr>],
    logs = [], issued = [InsertOrReplace ''foo'' ''Bar''], sent = [(1, Learned ''Foo'' ''Bar'')]\<rparr>"
  by code_simp

section \<open>Resolving and the usage count\<close>

lemma find_after_bump:
  "find (\<lambda>r. question r = k')
     (map (\<lambda>r. if question r = k then r\<lparr>usage_count := usage_count r + 1\<rparr> else r) m) =
   (if k' = k then map_option (\<lambda>r. r\<lparr>usage_count := usage_count r + 1\<rparr>)
                     (find (\<lambda>r. question r = k) m)
    else find (\<lambda>r. question r = k') m)"
  by (induction m) auto

lemma getAnswer_found:
  assumes "\<not> truthy (DEFAULT_KNOWLEDGE_at (trim (toLowerCase t)))"
      and "\<not> fails e (SelectAnswer (trim (toLowerCase t)))"
      and "lookup_row (trim (toLowerCase t)) s = Some r"
  shows "getAnswer e t s =
           (Ok (Str (answer r)),
            snd (update_usage e (trim (toLowerCase t)) (issue (SelectAnswer (trim (toLowerCase t))) s)))"
  using assms by (simp add: getAnswer_def select_answer_def lookup_row_def Let_def)

lemma lookup_row_update_usage:
  "lookup_row k' (snd (update_usage e k (issue st s))) =
     (if fails e (UpdateUsage k) then lookup_row k' s
      else if k' = k then map_option (\<lambda>r. r\<lparr>usage_count := usage_count r + 1\<rparr>) (lookup_row k s)
      else lookup_row k' s)"
  by (simp add: update_usage_def lookup_row_def find_after_bump)

lemma memory_update_usage_fails:
  "fails e (UpdateUsage k) \<Longrightarrow> memory (snd (update_usage e k (issue st s))) = memory s"
  by (simp add: update_usage_def)

lemma resolves_count:
  assumes "\<not> truthy (DEFAULT_KNOWLEDGE_at (trim (toLowerCase t)))"
      and "\<not> fails e (SelectAnswer (trim (toLowerCase t)))"
      and "\<not> fails e (UpdateUsage (trim (toLowerCase t)))"
  shows "lookup_row (trim (toLowerCase t)) s = Some r \<Longrightarrow>
         lookup_row (trim (toLowerCase t)) (resolves e t n s) =
           Some (r\<lparr>usage_count := usage_count r + n\<rparr>)"
proof (induction n arbitrary: s r)
  case 0
  then show ?case by simp
next
  case (Suc n)
  have "lookup_row (trim (toLowerCase t)) (snd (getAnswer e t s)) =
          Some (r\<lparr>usage_count := usage_count r + 1\<rparr>)"
    using getAnswer_found [OF assms(1,2) Suc.prems] assms(3) Suc.prems
    by (simp add: lookup_row_update_usage)
  from Suc.IH [OF this] show ?case by simp
qed

text \<open>
  Claim C8. Let the text normalize to a question that the built-in test does not catch
  and that has a row in \<open>memory\<close>, and let the \<open>SELECT\<close> not fail. Then \<open>getAnswer\<close>
  calls back with the stored answer, whether the \<open>UPDATE\<close> of the usage count fails or
  not. When the \<open>UPDATE\<close> does not fail the row has its usage count raised by one
  (and by \<open>n\<close> after \<open>n\<close> successive calls); when it fails \<open>memory\<close> is as it was. The
  rows of all other questions are unchanged. When the state is the one left by a teach
  of that question answered with \<open>Learned\<close>, the usage count after \<open>n\<close> successive calls
  is \<open>n\<close>.
\<close>

theorem resolve_counts_usage:
  assumes "\<not> truthy (DEFAULT_KNOWLEDGE_at (trim (toLowerCase t)))"
      and "\<not> fails e (SelectAnswer (trim (toLowerCase t)))"
      and "lookup_row (trim (toLowerCase t)) s = Some r"
  shows "fst (getAnswer e t s) = Ok (Str (answer r))
       \<and> (\<not> fails e (UpdateUsage (trim (toLowerCase t))) \<longrightarrow>
            lookup_row (trim (toLowerCase t)) (snd (getAnswer e t s)) =
              Some (r\<lparr>usage_count := usage_count r + 1\<rparr>))
       \<and> (fails e (UpdateUsage (trim (toLowerCase t))) \<longrightarrow>
            memory (snd (getAnswer e t s)) = memory s)
       \<and> (\<forall>k. k \<noteq> trim (toLowerCase t) \<longrightarrow>
            lookup_row k (snd (getAnswer e t s)) = lookup_row k s)
       \<and> (\<not> fails e (UpdateUsage (trim (toLowerCase t))) \<longrightarrow>
            lookup_row (trim (toLowerCase t)) (resolves e t n s) =
              Some (r\<lparr>usage_count := usage_count r + n\<rparr>))
       \<and> (\<not> fails e (UpdateUsage (trim (toLowerCase t))) \<and>
          s = teachMode e0 chat (''!teach'' @ raw) s0 \<and>
          sent s = sent s0 @ [(chat, Learned qq aa)] \<and>
          trim (toLowerCase t) = toLowerCase qq \<longrightarrow>
            map_option usage_count (lookup_row (trim (toLowerCase t)) (resolves e t n s)) = Some n)"
proof -
  let ?k = "trim (toLowerCase t)"
  note g = getAnswer_found [OF assms]
  have a: "fst (getAnswer e t s) = Ok (Str (answer r))" by (simp add: g)
  have b: "\<not> fails e (UpdateUsage ?k) \<longrightarrow>
            lookup_row ?k (snd (getAnswer e t s)) = Some (r\<lparr>usage_count := usage_count r + 1\<rparr>)"
    using assms(3) by (simp add: g lookup_row_update_usage)
  have c: "fails e (UpdateUsage ?k) \<longrightarrow> memory (snd (getAnswer e t s)) = memory s"
    by (simp add: g memory_update_usage_fails)
  have d: "\<forall>k. k \<noteq> ?k \<longrightarrow> lookup_row k (snd (getAnswer e t s)) = lookup_row k s"
    by (simp add: g lookup_row_update_usage)
  have e: "\<not> fails e (UpdateUsage ?k) \<longrightarrow>
            lookup_row ?k (resolves e t n s) = Some (r\<lparr>usage_count := usage_count r + n\<rparr>)"
    using resolves_count [OF assms(1,2) _ assms(3)] by blast
  have f: "\<not> fails e (UpdateUsage ?k) \<and> s = teachMode e0 chat (''!teach'' @ raw) s0 \<and>
          sent s = sent s0 @ [(chat, Learned qq aa)] \<and> ?k = toLowerCase qq \<longrightarrow>
            map_option usage_count (lookup_row ?k (resolves e t n s)) = Some n"
  proof (intro impI, elim conjE)
    assume u: "\<not> fails e (UpdateUsage ?k)" and s: "s = teachMode e0 chat (''!teach'' @ raw) s0"
      and l: "sent s = sent s0 @ [(chat, Learned qq aa)]" and k: "?k = toLowerCase qq"
    from l have l': "sent (teachMode e0 chat (''!teach'' @ raw) s0) = sent s0 @ [(chat, Learned qq aa)]"
      unfolding s .
    have "lookup_row ?k s =
            Some \<lparr>question = toLowerCase qq, answer = aa, created_at = now e0, usage_count = 0\<rparr>"
      unfolding s k using teach_Learned_lookup [OF l', of "toLowerCase qq"] by (simp del: append.simps)
    with assms(3) have "r = \<lparr>question = toLowerCase qq, answer = aa, created_at = now e0, usage_count = 0\<rparr>"
      by simp
    then have "usage_count r = 0" by simp
    with e u show "map_option usage_count (lookup_row ?k (resolves e t n s)) = Some n" by simp
  qed
  from a b c d e f show ?thesis by blast
qed

theorem resolve_counts_usage_witness:
  "\<not> truthy (DEFAULT_KNOWLEDGE_at (trim (toLowerCase '' FOO ''))) \<and>
   \<not> fails (update_faults 8) (SelectAnswer (trim (toLowerCase '' FOO ''))) \<and>
   \<not> fails (no_faults 8) (SelectAnswer (trim (toLowerCase '' FOO ''))) \<and>
   lookup_row (trim (toLowerCase '' FOO ''))
     (teachMode (no_faults 7) 1 (''!teach'' @ '' Foo | Bar'')
        \<lparr>memory = [], logs = [], issued = [], sent = []\<rparr>) =
     Some \<lparr>question = ''foo'', answer = ''Bar'', created_at = 7, usage_count = 0\<rparr> \<and>
   fails (update_faults 8) (UpdateUsage (trim (toLowerCase '' FOO ''))) \<and>
   fst (getAnswer (update_faults 8) '' FOO ''
     (teachMode (no_faults 7) 1 (''!teach'' @ '' Foo | Bar'')
        \<lparr>memory = [], logs = [], issued = [], sent = []\<rparr>)) = Ok (Str ''Bar'') \<and>
   memory (snd (getAnswer (update_faults 8) '' FOO ''
     (teachMode (no_faults 7) 1 (''!teach'' @ '' Foo | Bar'')
        \<lparr>memory = [], logs = [], issued = [], sent = []\<rparr>))) =
     memory (teachMode (no_faults 7) 1 (''!teach'' @ '' Foo | Bar'')
        \<lparr>memory = [], logs = [], issued = [], sent = []\<rparr>) \<and>
   \<not> fails (no_faults 8) (UpdateUsage (trim (toLowerCase '' FOO ''))) \<and>
   fst (getAnswer (no_faults 8) '' FOO ''
     (teachMode (no_faults 7) 1 (''!teach'' @ '' Foo | Bar'')
        \<lparr>memory = [], logs = [], issued = [], sent = []\<rparr>)) = Ok (Str ''Bar'') \<and>
   lookup_row (trim (toLowerCase '' FOO ''))
     (snd (getAnswer (no_faults 8) '' FOO ''
       (teachMode (no_faults 7) 1 (''!teach'' @ '' Foo | Bar'')
          \<lparr>memory = [], logs = [], issued = [], sent = []\<rparr>))) =
     Some \<lparr>question = ''foo'', answer = ''Bar'', created_at = 7, usage_count = 1\<rparr> \<and>
   sent (teachMode (no_faults 7) 1 (''!teach'' @ '' Foo | Bar'')
          \<lparr>memory = [], logs = [], issued = [], sent = []\<rparr>) =
     sent \<lparr>memory = [], logs = [], issued = [], sent = []\<rparr> @ [(1, Learned ''Foo'' ''Bar'')] \<and>
   trim (toLowerCase '' FOO '') = toLowerCase ''Foo'' \<and>
   map_option usage_count
     (lookup_row (trim (toLowerCase '' FOO ''))
       (resolves (no_faults 8) '' FOO '' 3
         (teachMode (no_faults 7) 1 (''!teach'' @ '' Foo | Bar'')
            \<lparr>memory = [], logs = [], issued = [], sent = []\<rparr>))) = Some 3"
proof -
  let ?init = "\<lparr>memory = [], logs = [], issued = [], sent = []\<rparr>"
  let ?s = "teachMode (no_faults 7) 1 (''!teach'' @ '' Foo | Bar'') ?init"
  let ?r = "\<lparr>question = ''foo'', answer = ''Bar'', created_at = 7, usage_count = 0\<rparr>"
  let ?k = "trim (toLowerCase '' FOO '')"
  have h1: "\<not> truthy (DEFAULT_KNOWLEDGE_at ?k)" by code_simp
  have h2: "\<not> fails (update_faults 8) (SelectAnswer ?k)"
    by (simp add: update_faults_def)
  have h2': "\<not> fails (no_faults 8) (SelectAnswer ?k)"
    by (simp add: no_faults_def)
  have h3: "lookup_row ?k ?s = Some ?r" by code_simp
  have uf: "fails (update_faults 8) (UpdateUsage ?k)"
    by (simp add: update_faults_def)
  have u: "\<not> fails (no_faults 8) (UpdateUsage ?k)"
    by (simp add: no_faults_def)
  have t: "sent ?s = sent ?init @ [(1, Learned ''Foo'' ''Bar'')]" by code_simp
  have k: "?k = toLowerCase ''Foo''" by code_simp
  have r: "answer ?r = ''Bar''"
    "?r\<lparr>usage_count := usage_count ?r + 1\<rparr> =
       \<lparr>question = ''foo'', answer = ''Bar'', created_at = 7, usage_count = 1\<rparr>"
    by simp_all
  note a = resolve_counts_usage [OF h1 h2 h3]
  note b = resolve_counts_usage [OF h1 h2' h3, of 3 "no_faults 7" 1 "'' Foo | Bar''" ?init "''Foo''" "''Bar''"]
  from a uf have a1: "fst (getAnswer (update_faults 8) '' FOO '' ?s) = Ok (Str ''Bar'')"
    and a2: "memory (snd (getAnswer (update_faults 8) '' FOO '' ?s)) = memory ?s"
    unfolding r by blast+
  from b u t k have b1: "fst (getAnswer (no_faults 8) '' FOO '' ?s) = Ok (Str ''Bar'')"
    and b2: "lookup_row ?k (snd (getAnswer (no_faults 8) '' FOO '' ?s)) =
       Some \<lparr>question = ''foo'', answer = ''Bar'', created_at = 7, usage_count = 1\<rparr>"
    and b3: "map_option usage_count (lookup_row ?k (resolves (no_faults 8) '' FOO '' 3 ?s)) = Some 3"
    unfolding r by blast+
  from h1 h2 h2' h3 uf a1 a2 u b1 b2 t k b3 show ?thesis by blast
qed

section \<open>The interaction log\<close>

















section \<open>Inherited properties of the built-in table\<close>

lemma prototype_key_access:
  assumes "k \<in> set Object_prototype_keys"
  shows "DEFAULT_KNOWLEDGE_at k = ProtoMember k"
proof -
  have "list_all (\<lambda>k. map_of DEFAULT_KNOWLEDGE k = None) Object_prototype_keys"
    by code_simp
  with assms have "map_of DEFAULT_KNOWLEDGE k = None"
    unfolding list_all_iff by blast
  with assms show ?thesis by (simp add: DEFAULT_KNOWLEDGE_at_def)
qed

lemma prototype_key_not_empty:
  assumes "k \<in> set Object_prototype_keys"
  shows "k \<noteq> []"
proof -
  have "list_all (\<lambda>k. k \<noteq> []) Object_prototype_keys"
    by code_simp
  with assms show ?thesis unfolding list_all_iff by blast
qed

lemma prototype_key_lower:
  assumes "k \<in> set Object_prototype_keys"
  shows "toLowerCase k = k \<longleftrightarrow> k = ''constructor'' \<or> k = ''__proto__''"
proof -
  have "list_all (\<lambda>k. (toLowerCase k = k) = (k = ''constructor'' \<or> k = ''__proto__''))
          Object_prototype_keys"
    by code_simp
  with assms show ?thesis unfolding list_all_iff by blast
qed

lemma normalized_is_lower: "toLowerCase (trim (toLowerCase t)) = trim (toLowerCase t)"
  by (simp add: trim_toLowerCase [symmetric] toLowerCase_idem)

text \<open>
  Claim C10, as the code has it. Let \<open>k\<close> be a property name inherited from
  \<open>Object.prototype\<close>. A text that normalizes to \<open>k\<close> is resolved as built-in:
  \<open>getAnswer\<close> calls back with the inherited member and the state is untouched. A teach
  input with a \<open>|\<close>, a question whose lower-casing is \<open>k\<close> and a non-empty answer is
  answered with the built-in-conflict message. Normalization lower-cases, so a text can
  normalize to \<open>k\<close> only when \<open>k\<close> is \<open>constructor\<close> or \<open>__proto__\<close>.
\<close>

theorem prototype_keys_shadow_builtin:
  assumes "k \<in> set Object_prototype_keys"
  shows "(trim (toLowerCase t) = k \<longrightarrow> getAnswer e t s = (Ok (ProtoMember k), s))
       \<and> (CHR ''|'' \<in> set raw \<and> toLowerCase (teach_question raw) = k \<and> teach_answer raw \<noteq> [] \<longrightarrow>
            teachMode e chat (''!teach'' @ raw) s = sendMessage chat BuiltinConflict s)
       \<and> ((\<exists>x. trim (toLowerCase x) = k) \<longleftrightarrow> k = ''constructor'' \<or> k = ''__proto__'')"
proof (intro conjI impI)
  assume "trim (toLowerCase t) = k"
  then show "getAnswer e t s = (Ok (ProtoMember k), s)"
    using prototype_key_access [OF assms] by (simp add: getAnswer_def)
next
  assume a: "CHR ''|'' \<in> set raw \<and> toLowerCase (teach_question raw) = k \<and> teach_answer raw \<noteq> []"
  have "k \<noteq> []" by (rule prototype_key_not_empty [OF assms])
  with a have "teach_question raw \<noteq> []" by (auto simp: toLowerCase_def)
  with a show "teachMode e chat (''!teach'' @ raw) s = sendMessage chat BuiltinConflict s"
    unfolding teachMode_eq using prototype_key_access [OF assms] by simp
next
  show "(\<exists>x. trim (toLowerCase x) = k) \<longleftrightarrow> k = ''constructor'' \<or> k = ''__proto__''"
  proof
    assume "\<exists>x. trim (toLowerCase x) = k"
    then have "toLowerCase k = k" using normalized_is_lower by blast
    then show "k = ''constructor'' \<or> k = ''__proto__''"
      using prototype_key_lower [OF assms] by simp
  next
    assume k: "k = ''constructor'' \<or> k = ''__proto__''"
    have "trim (toLowerCase ''constructor'') = ''constructor''"
      "trim (toLowerCase ''__proto__'') = ''__proto__''" by code_simp+
    with k show "\<exists>x. trim (toLowerCase x) = k" by blast
  qed
qed

theorem prototype_keys_shadow_builtin_witness:
  "''constructor'' \<in> set Object_prototype_keys \<and>
   trim (toLowerCase '' Constructor'') = ''constructor'' \<and>
   getAnswer (no_faults 7) '' Constructor'' \<lparr>memory = [], logs = [], issued = [], sent = []\<rparr> =
     (Ok (ProtoMember ''constructor''), \<lparr>memory = [], logs = [], issued = [], sent = []\<rparr>) \<and>
   CHR ''|'' \<in> set '' Constructor | x'' \<and>
   toLowerCase (teach_question '' Constructor | x'') = ''constructor'' \<and>
   teach_answer '' Constructor | x'' \<noteq> [] \<and>
   teachMode (no_faults 7) 1 (''!teach'' @ '' Constructor | x'')
     \<lparr>memory = [], logs = [], issued = [], sent = []\<rparr> =
     \<lparr>memory = [], logs = [], issued = [], sent = [(1, BuiltinConflict)]\<rparr>"
proof -
  let ?s = "\<lparr>memory = [], logs = [], issued = [], sent = []\<rparr>"
  have h0: "''constructor'' \<in> set Object_prototype_keys" by code_simp
  have h1: "trim (toLowerCase '' Constructor'') = ''constructor''" by code_simp
  have h2: "CHR ''|'' \<in> set '' Constructor | x''" by simp
  have h3: "toLowerCase (teach_question '' Constructor | x'') = ''constructor''" by code_simp
  have h4: "teach_answer '' Constructor | x'' \<noteq> []" by code_simp
  have s: "sendMessage 1 BuiltinConflict ?s =
     \<lparr>memory = [], logs = [], issued = [], sent = [(1, BuiltinConflict)]\<rparr>"
    by (simp add: sendMessage_def)
  from prototype_keys_shadow_builtin [OF h0, of "'' Constructor''" "no_faults 7" ?s "'' Constructor | x''" 1]
    h0 h1 h2 h3 h4
  show ?thesis unfolding s by blast
qed

text \<open>
  Claim C10 as stated fails: the text \<open>valueOf\<close> is looked up in \<open>memory\<close> under
  \<open>valueof\<close> and not found, \<open>!teach valueOf | x\<close> is learned, and \<open>!teach constructor |\<close>
  is answered with the invalid-format message.
\<close>

theorem prototype_keys_counterexample:
  "getAnswer (no_faults 7) ''valueOf'' \<lparr>memory = [], logs = [], issued = [], sent = []\<rparr> =
     (Ok Null, \<lparr>memory = [], logs = [], issued = [SelectAnswer ''valueof''], sent = []\<rparr>)
   \<and> teachMode (no_faults 7) 1 ''!teach valueOf | x''
        \<lparr>memory = [], logs = [], issued = [], sent = []\<rparr> =
      \<lparr>memory = [\<lparr>question = ''valueof'', answer = ''x'', created_at = 7, usage_count = 0\<rparr>],
       logs = [], issued = [InsertOrReplace ''valueof'' ''x''],
       sent = [(1, Learned ''valueOf'' ''x'')]\<rparr>
   \<and> teachMode (no_faults 7) 1 ''!teach constructor |''
        \<lparr>memory = [], logs = [], issued = [], sent = []\<rparr> =
      \<lparr>memory = [], logs = [], issued = [], sent = [(1, InvalidFormat)]\<rparr>"
  by code_simp

end
